theory Spec2Isabelle
  imports Main
begin

section \<open>JavaScript literal data\<close>

text \<open>
  The module \<^verbatim>\<open>src/index.ts\<close> consists of object literals only. A literal is kept as it
  is written: an object is the list of its key/value pairs in source order (so a repeated
  key would be visible), an array is a list, and the leaves are strings, numbers and
  booleans.
\<close>

datatype json =
    JStr string
  | JNum int
  | JBool bool
  | JArr "json list"
  | JObj "(string \<times> json) list"

text \<open>The own properties of an object, in source order; nothing for a non-object.\<close>

fun entries :: "json \<Rightarrow> (string \<times> json) list" where
  "entries (JObj kvs) = kvs"
| "entries _ = []"

text \<open>
  Property access \<^verbatim>\<open>o[k]\<close> on a literal: in a JavaScript object literal the last
  occurrence of a key wins; \<open>None\<close> stands for \<^verbatim>\<open>undefined\<close>.
\<close>

definition lookup :: "(string \<times> 'a) list \<Rightarrow> string \<Rightarrow> 'a option" where
  "lookup kvs k = map_of (rev kvs) k"

definition field :: "string \<Rightarrow> json \<Rightarrow> json option" where
  "field k v = lookup (entries v) k"

text \<open>The keys of an object, \<^verbatim>\<open>Object.keys(o)\<close> for a literal without repeated keys.\<close>

definition keys :: "json \<Rightarrow> string list" where
  "keys v = map fst (entries v)"

section \<open>The module\<close>

text \<open>
  \<^verbatim>\<open>const noFallThroughPattern = '[Ff]alls?\\s?through'\<close>: in the JavaScript literal
  the doubled backslash denotes one backslash character (code \<open>0x5C\<close>).
\<close>

definition noFallThroughPattern :: string where
  "noFallThroughPattern = ''[Ff]alls?'' @ CHR 0x5C # ''s?through''"

text \<open>\<^verbatim>\<open>es5Config\<close>: rules for ES5 JavaScript codebases.\<close>

definition es5Config :: json where
  "es5Config = JObj [
    (''extends'', JArr [JStr ''eslint:recommended'']),
    (''rules'', JObj [
      (''arrow-spacing'', JArr [
        JStr ''error'',
        JObj [
          (''after'', JBool True),
          (''before'', JBool True)]]),
      (''brace-style'', JArr [
        JStr ''error'',
        JStr ''1tbs'',
        JObj [
          (''allowSingleLine'', JBool True)]]),
      (''comma-dangle'', JArr [
        JStr ''error'',
        JStr ''never'']),
      (''comma-spacing'', JArr [
        JStr ''error'',
        JObj [
          (''after'', JBool True),
          (''before'', JBool False)]]),
      (''comma-style'', JArr [
        JStr ''error'',
        JStr ''last'']),
      (''curly'', JArr [
        JStr ''error'',
        JStr ''all'']),
      (''default-case'', JStr ''error''),
      (''default-case-last'', JStr ''error''),
      (''eqeqeq'', JArr [
        JStr ''error'',
        JStr ''always'']),
      (''func-call-spacing'', JArr [
        JStr ''error'',
        JStr ''never'']),
      (''indent'', JArr [
        JStr ''error'',
        JNum 4,
        JObj [
          (''ArrayExpression'', JStr ''first''),
          (''CallExpression'', JObj [
            (''arguments'', JStr ''first'')]),
          (''FunctionDeclaration'', JObj [
            (''body'', JNum 1),
            (''parameters'', JStr ''first'')]),
          (''FunctionExpression'', JObj [
            (''body'', JNum 1),
            (''parameters'', JStr ''first'')]),
          (''ImportDeclaration'', JNum 1),
          (''MemberExpression'', JStr ''off''),
          (''ObjectExpression'', JStr ''first''),
          (''SwitchCase'', JNum 1),
          (''ignoredNodes'', JArr [
            JStr ''ConditionalExpression'']),
          (''outerIIFEBody'', JNum 0)]]),
      (''linebreak-style'', JArr [
        JStr ''error'',
        JStr ''unix'']),
      (''lines-around-comment'', JArr [
        JStr ''warn'',
        JObj [
          (''beforeBlockComment'', JBool True),
          (''beforeLineComment'', JBool True),
          (''allowArrayEnd'', JBool True),
          (''allowArrayStart'', JBool True),
          (''allowBlockEnd'', JBool True),
          (''allowBlockStart'', JBool True),
          (''allowClassEnd'', JBool True),
          (''allowClassStart'', JBool True),
          (''allowObjectEnd'', JBool True),
          (''allowObjectStart'', JBool True),
          (''ignorePattern'', JStr noFallThroughPattern)]]),
      (''max-len'', JArr [
        JStr ''error'',
        JObj [
          (''code'', JNum 79),
          (''ignorePattern'', JStr (''gettext'' @ CHR 0x5C # ''(.*'')),
          (''ignoreUrls'', JBool True)]]),
      (''no-confusing-arrow'', JArr [
        JStr ''error'',
        JObj [
          (''allowParens'', JBool True)]]),
      (''no-fallthrough'', JArr [
        JStr ''error'',
        JObj [
          (''allowEmptyCase'', JBool True),
          (''commentPattern'', JStr noFallThroughPattern)]]),
      (''no-mixed-spaces-and-tabs'', JStr ''error''),
      (''no-multi-spaces'', JArr [
        JStr ''warn'',
        JObj [
          (''ignoreEOLComments'', JBool True)]]),
      (''no-multiple-empty-lines'', JArr [
        JStr ''error'',
        JObj [
          (''max'', JNum 2),
          (''maxBOF'', JNum 1),
          (''maxEOF'', JNum 0)]]),
      (''no-prototype-builtins'', JStr ''off''),
      (''no-tabs'', JStr ''error''),
      (''no-trailing-spaces'', JStr ''error''),
      (''no-unused-vars'', JArr [
        JStr ''error'',
        JObj [
          (''args'', JStr ''none''),
          (''vars'', JStr ''local'')]]),
      (''padding-line-between-statements'', JArr [
        JStr ''error'',
        JObj [
          (''blankLine'', JStr ''always''),
          (''next'', JArr [JStr ''block-like'', JStr ''class'', JStr ''function'']),
          (''prev'', JStr ''*'')],
        JObj [
          (''blankLine'', JStr ''always''),
          (''next'', JStr ''*''),
          (''prev'', JArr [JStr ''block-like'', JStr ''class'', JStr ''function''])],
        JObj [
          (''blankLine'', JStr ''any''),
          (''next'', JArr [JStr ''const'', JStr ''let'', JStr ''var'']),
          (''prev'', JStr ''*'')],
        JObj [
          (''blankLine'', JStr ''always''),
          (''next'', JStr ''*''),
          (''prev'', JArr [JStr ''case'', JStr ''default''])],
        JObj [
          (''blankLine'', JStr ''always''),
          (''next'', JStr ''return''),
          (''prev'', JStr ''*'')]]),
      (''quotes'', JArr [
        JStr ''error'',
        JStr ''single'',
        JObj [
          (''avoidEscape'', JBool True)]]),
      (''semi'', JArr [
        JStr ''error'',
        JStr ''always'']),
      (''sort-keys'', JArr [
        JStr ''warn'',
        JStr ''asc'',
        JObj [
          (''allowLineSeparatedGroups'', JBool True)]]),
      (''space-in-parens'', JArr [
        JStr ''error'',
        JStr ''never'']),
      (''spaced-comment'', JArr [
        JStr ''error'',
        JStr ''always'',
        JObj [
          (''block'', JObj [
            (''markers'', JArr [JStr ''*'', JStr ''!''])]),
          (''exceptions'', JArr [JStr ''*'', JStr ''-''])]]),
      (''yoda'', JArr [
        JStr ''error'',
        JStr ''never''])])]"

text \<open>\<^verbatim>\<open>es6Config\<close>: rules for ES6 JavaScript codebases.\<close>

definition es6Config :: json where
  "es6Config = JObj [
    (''env'', JObj [
      (''es2021'', JBool True)]),
    (''parserOptions'', JObj [
      (''ecmaVersion'', JStr ''latest'')]),
    (''globals'', JObj [
      (''dedent'', JStr ''readonly'')]),
    (''rules'', JObj [
      (''comma-dangle'', JArr [
        JStr ''error'',
        JObj [
          (''arrays'', JStr ''always-multiline''),
          (''exports'', JStr ''always-multiline''),
          (''functions'', JStr ''only-multiline''),
          (''imports'', JStr ''always-multiline''),
          (''objects'', JStr ''always-multiline'')]]),
      (''no-var'', JStr ''error''),
      (''prefer-const'', JStr ''warn''),
      (''quotes'', JArr [
        JStr ''error'',
        JStr ''single'',
        JObj [
          (''allowTemplateLiterals'', JBool True),
          (''avoidEscape'', JBool True)]])])]"

text \<open>\<^verbatim>\<open>typescriptConfig\<close>: rules for TypeScript codebases.\<close>

definition typescriptConfig :: json where
  "typescriptConfig = JObj [
    (''extends'', JArr [
      JStr ''plugin:@beanbag/es6'',
      JStr ''plugin:@typescript-eslint/recommended'']),
    (''parser'', JStr ''@typescript-eslint/parser''),
    (''plugins'', JArr [
      JStr ''@typescript-eslint'']),
    (''rules'', JObj [
      (''@typescript-eslint/no-this-alias'', JStr ''warn''),
      (''@typescript-eslint/lines-around-comment'', JArr [
        JStr ''warn'',
        JObj [
          (''beforeBlockComment'', JBool True),
          (''beforeLineComment'', JBool True),
          (''allowArrayEnd'', JBool True),
          (''allowArrayStart'', JBool True),
          (''allowBlockEnd'', JBool True),
          (''allowBlockStart'', JBool True),
          (''allowClassEnd'', JBool True),
          (''allowClassStart'', JBool True),
          (''allowEnumEnd'', JBool True),
          (''allowEnumStart'', JBool True),
          (''allowInterfaceEnd'', JBool True),
          (''allowInterfaceStart'', JBool True),
          (''allowModuleEnd'', JBool True),
          (''allowModuleStart'', JBool True),
          (''allowObjectEnd'', JBool True),
          (''allowObjectStart'', JBool True),
          (''allowTypeEnd'', JBool True),
          (''allowTypeStart'', JBool True),
          (''ignorePattern'', JStr noFallThroughPattern)]]),
      (''lines-around-comment'', JStr ''off'')])]"

text \<open>\<^verbatim>\<open>jasmineTestsConfig\<close>: rules and globals for Jasmine test files.\<close>

definition jasmineTestsConfig :: json where
  "jasmineTestsConfig = JObj [
    (''env'', JObj [
      (''@beanbag/jasmine-suites'', JBool True),
      (''jasmine'', JBool True)]),
    (''extends'', JArr [
      JStr ''plugin:jasmine/recommended'']),
    (''plugins'', JArr [
      JStr ''jasmine'']),
    (''globals'', JObj [
      (''$testsScratch'', JStr ''writable'')]),
    (''rules'', JObj [
      (''jasmine/new-line-before-expect'', JStr ''off''),
      (''jasmine/no-expect-in-setup-teardown'', JStr ''off''),
      (''jasmine/no-global-setup'', JStr ''off''),
      (''jasmine/no-spec-dupes'', JArr [
        JStr ''error'',
        JStr ''branch'']),
      (''jasmine/no-suite-dupes'', JArr [
        JStr ''warn'',
        JStr ''branch'']),
      (''jasmine/prefer-toHaveBeenCalledWith'', JStr ''off'')])]"

text \<open>The inline literal bound to \<^verbatim>\<open>configs.recommended\<close>.\<close>

definition recommended :: json where
  "recommended = JObj [
    (''extends'', JArr [
      JStr ''plugin:@beanbag/es5'']),
    (''plugins'', JArr [
      JStr ''@beanbag'']),
    (''overrides'', JArr [
      JObj [
        (''files'', JArr [
          JStr ''*.es6.js'']),
        (''extends'', JArr [
          JStr ''plugin:@beanbag/es6''])],
      JObj [
        (''files'', JArr [
          JStr ''*.ts'']),
        (''extends'', JArr [
          JStr ''plugin:@beanbag/typescript''])],
      JObj [
        (''files'', JArr [
          JStr ''*Tests.es6.js'',
          JStr ''*Tests.js'',
          JStr ''*Tests.ts'']),
        (''extends'', JArr [
          JStr ''plugin:@beanbag/jasmine''])],
      JObj [
        (''files'', JArr [
          JStr ''rollup.config.js'',
          JStr ''.babelrc'']),
        (''extends'', JArr [
          JStr ''plugin:@beanbag/es6'']),
        (''parserOptions'', JObj [
          (''sourceType'', JStr ''module'')])]])]"

text \<open>\<^verbatim>\<open>export const configs\<close>\<close>

definition configs :: json where
  "configs = JObj [
    (''es5'', es5Config),
    (''es6'', es6Config),
    (''typescript'', typescriptConfig),
    (''jasmine'', jasmineTestsConfig),
    (''recommended'', recommended)]"

text \<open>\<^verbatim>\<open>export const environments\<close>\<close>

definition environments :: json where
  "environments = JObj [
    (''backbone'', JObj [
      (''globals'', JObj [
        (''Backbone'', JBool False),
        (''_'', JBool False)])]),
    (''django'', JObj [
      (''globals'', JObj [
        (''django'', JBool False),
        (''gettext'', JBool False),
        (''gettext_noop'', JBool False),
        (''interpolate'', JBool False),
        (''ngettext'', JBool False),
        (''npgettext'', JBool False),
        (''pgettext'', JBool False)])]),
    (''djblets'', JObj [
      (''Djblets'', JBool False)]),
    (''jasmine-suites'', JObj [
      (''globals'', JObj [
        (''suite'', JBool False)])]),
    (''reviewboard'', JObj [
      (''RB'', JBool False)])]"

section \<open>Reading the registry\<close>

text \<open>
  The module exports the two objects and nothing else: selecting a configuration or an
  environment by name is a property access on them, done by the host linter.
\<close>

datatype error = NotFoundError

text \<open>
  Modelled from the spec: the lookup operations \<^verbatim>\<open>getConfiguration\<close> and
  \<^verbatim>\<open>listConfigurations\<close>, which the module does not define. A lookup is the property
  access on the exported object; an unregistered name is the error \<open>NotFoundError\<close>,
  never a default.
\<close>

definition listConfigurations :: "string set" where
  "listConfigurations = set (keys configs)"

definition getConfiguration :: "string \<Rightarrow> error + json" where
  "getConfiguration name =
     (case field name configs of None \<Rightarrow> Inl NotFoundError | Some c \<Rightarrow> Inr c)"

subsection \<open>Rule settings\<close>

text \<open>The rule map of a configuration: the pairs under its \<^verbatim>\<open>rules\<close> key, if it has one.\<close>

definition ruleMap :: "json \<Rightarrow> (string \<times> json) list" where
  "ruleMap cfg = (case field ''rules'' cfg of Some r \<Rightarrow> entries r | None \<Rightarrow> [])"

text \<open>
  A rule setting is a bare severity, or an array whose first element is the severity and
  whose other elements are the options.
\<close>

fun severityOf :: "json \<Rightarrow> json option" where
  "severityOf (JArr []) = None"
| "severityOf (JArr (s # opts)) = Some s"
| "severityOf v = Some v"

fun optionsOf :: "json \<Rightarrow> json list" where
  "optionsOf (JArr (s # opts)) = opts"
| "optionsOf _ = []"

definition isSeverity :: "json \<Rightarrow> bool" where
  "isSeverity v = (v = JStr ''off'' \<or> v = JStr ''warn'' \<or> v = JStr ''error'')"

definition validSetting :: "json \<Rightarrow> bool" where
  "validSetting s = (case severityOf s of Some v \<Rightarrow> isSeverity v | None \<Rightarrow> False)"

definition ruleSeverity :: "(string \<times> json) list \<Rightarrow> string \<Rightarrow> json option" where
  "ruleSeverity rs r = (case lookup rs r of Some s \<Rightarrow> severityOf s | None \<Rightarrow> None)"

text \<open>A rule is active when its severity is \<^verbatim>\<open>warn\<close> or \<^verbatim>\<open>error\<close>.\<close>

definition activeRule :: "(string \<times> json) list \<Rightarrow> string \<Rightarrow> bool" where
  "activeRule rs r =
     (ruleSeverity rs r = Some (JStr ''warn'') \<or> ruleSeverity rs r = Some (JStr ''error''))"

text \<open>The option \<open>k\<close> in the first options object of rule \<open>r\<close>.\<close>

definition ruleOption :: "json \<Rightarrow> string \<Rightarrow> string \<Rightarrow> json option" where
  "ruleOption cfg r k =
     (case lookup (ruleMap cfg) r of
        None \<Rightarrow> None
      | Some s \<Rightarrow> (case optionsOf s of [] \<Rightarrow> None | opt # rest \<Rightarrow> field k opt))"

text \<open>
  Modelled from the spec: the merge of an extending rule map over a base rule map, which
  the host linter performs and the module only prepares. The extending map replaces the
  setting of every rule identifier it declares and adds the identifiers the base lacks;
  every other setting of the base stays.
\<close>

definition mergeRules ::
  "(string \<times> json) list \<Rightarrow> (string \<times> json) list \<Rightarrow> (string \<times> json) list" where
  "mergeRules base ext =
     map (\<lambda>(r, s). (r, case lookup ext r of Some s' \<Rightarrow> s' | None \<Rightarrow> s)) base
     @ filter (\<lambda>(r, s). r \<notin> set (map fst base)) ext"

text \<open>The rule identifiers that both maps declare, in the order of the second.\<close>

definition redeclared :: "(string \<times> json) list \<Rightarrow> (string \<times> json) list \<Rightarrow> string list" where
  "redeclared base ext = filter (\<lambda>r. r \<in> set (map fst base)) (map fst ext)"

subsection \<open>Globals\<close>

datatype permission = ReadOnly | Writable

text \<open>
  The permission a global's value stands for: \<^verbatim>\<open>false\<close> and \<^verbatim>\<open>'readonly'\<close> declare a
  read-only global, \<^verbatim>\<open>true\<close> and \<^verbatim>\<open>'writable'\<close> a writable one; anything else is not
  a permission tag.
\<close>

fun permissionOf :: "json \<Rightarrow> permission option" where
  "permissionOf (JBool b) = Some (if b then Writable else ReadOnly)"
| "permissionOf (JStr s) =
     (if s = ''readonly'' then Some ReadOnly
      else if s = ''writable'' then Some Writable
      else None)"
| "permissionOf _ = None"

text \<open>The globals a record declares: the pairs under its \<^verbatim>\<open>globals\<close> key.\<close>

definition declaredGlobals :: "json \<Rightarrow> (string \<times> json) list" where
  "declaredGlobals rec = (case field ''globals'' rec of Some g \<Rightarrow> entries g | None \<Rightarrow> [])"

definition globalTags :: "json \<Rightarrow> (string \<times> permission option) list" where
  "globalTags rec = map (\<lambda>(g, v). (g, permissionOf v)) (declaredGlobals rec)"

definition writableGlobals :: "json \<Rightarrow> string list" where
  "writableGlobals rec =
     map fst (filter (\<lambda>(g, v). permissionOf v = Some Writable) (declaredGlobals rec))"

text \<open>
  The shape of an environment record: a \<^verbatim>\<open>globals\<close> key holding an object whose values
  are all permission tags.
\<close>

definition hasGlobalsMapping :: "json \<Rightarrow> bool" where
  "hasGlobalsMapping rec =
     (case field ''globals'' rec of
        Some (JObj kvs) \<Rightarrow> list_all (\<lambda>(g, v). permissionOf v \<noteq> None) kvs
      | _ \<Rightarrow> False)"

subsection \<open>Overrides\<close>

text \<open>The string elements of an array.\<close>

fun strings :: "json \<Rightarrow> string list" where
  "strings (JArr vs) = concat (map (\<lambda>v. case v of JStr s \<Rightarrow> [s] | _ \<Rightarrow> []) vs)"
| "strings _ = []"

definition overrides :: "json \<Rightarrow> json list" where
  "overrides cfg = (case field ''overrides'' cfg of Some (JArr os) \<Rightarrow> os | _ \<Rightarrow> [])"

definition filesOf :: "json \<Rightarrow> string list" where
  "filesOf ov = (case field ''files'' ov of Some fs \<Rightarrow> strings fs | None \<Rightarrow> [])"

definition extendsOf :: "json \<Rightarrow> string list" where
  "extendsOf ov = (case field ''extends'' ov of Some es \<Rightarrow> strings es | None \<Rightarrow> [])"

text \<open>
  The configurations that the overrides of \<open>cfg\<close> pull in for the file \<open>f\<close>, when
  \<open>matches p f\<close> says whether the pattern \<open>p\<close> matches \<open>f\<close>. The matching itself belongs
  to the host linter and is a parameter here.
\<close>

definition overrideConfigs :: "(string \<Rightarrow> string \<Rightarrow> bool) \<Rightarrow> json \<Rightarrow> string \<Rightarrow> string list" where
  "overrideConfigs matches cfg f =
     concat (map extendsOf
       (filter (\<lambda>ov. list_ex (\<lambda>p. matches p f) (filesOf ov)) (overrides cfg)))"

text \<open>
  A matcher to evaluate examples with: \<^verbatim>\<open>*\<close> stands for any run of characters, every
  other character for itself. It covers the patterns of the module, none of which has
  another metacharacter or a directory part, applied to a file's base name.
\<close>

fun globMatch :: "string \<Rightarrow> string \<Rightarrow> bool" where
  "globMatch [] [] = True"
| "globMatch [] (c # cs) = False"
| "globMatch (p # ps) [] = (p = CHR ''*'' \<and> globMatch ps [])"
| "globMatch (p # ps) (c # cs) =
     (if p = CHR ''*'' then globMatch ps (c # cs) \<or> globMatch (p # ps) cs
      else p = c \<and> globMatch ps cs)"

subsection \<open>Writing to an exported object\<close>



section \<open>Lookup and merge\<close>

text \<open>
  The later pair of a repeated key decides a lookup; the merge of two rule maps is read
  through the extending map first and keeps the keys of both maps apart.
\<close>

lemma lookup_Nil: "lookup [] k = None"
  by (simp add: lookup_def)

lemma lookup_append:
  "lookup (xs @ ys) k = (case lookup ys k of Some v \<Rightarrow> Some v | None \<Rightarrow> lookup xs k)"
  by (simp add: lookup_def map_add_def split: option.split)

lemma lookup_Cons:
  "lookup ((k', v) # kvs) k =
     (case lookup kvs k of Some w \<Rightarrow> Some w | None \<Rightarrow> if k = k' then Some v else None)"
  by (simp add: lookup_def map_add_def split: option.split)

lemma lookup_eq_None: "lookup kvs k = None \<longleftrightarrow> k \<notin> set (map fst kvs)"
  by (simp add: lookup_def map_of_eq_None_iff)

lemma lookup_map_values:
  "lookup (map (\<lambda>(r, s). (r, f r s)) kvs) k = map_option (f k) (lookup kvs k)"
proof (induction kvs)
  case Nil
  show ?case by (simp add: lookup_Nil)
next
  case (Cons kv kvs)
  obtain k' v where kv: "kv = (k', v)" by (cases kv)
  show ?case using Cons.IH by (simp add: kv lookup_Cons split: option.split)
qed

lemma lookup_filter_keys:
  "lookup (filter (\<lambda>(r, s). P r) kvs) k = (if P k then lookup kvs k else None)"
proof (induction kvs)
  case Nil
  show ?case by (simp add: lookup_Nil)
next
  case (Cons kv kvs)
  obtain k' v where kv: "kv = (k', v)" by (cases kv)
  show ?case using Cons.IH by (simp add: kv lookup_Cons split: option.split)
qed

lemma lookup_mergeRules:
  "lookup (mergeRules base ext) r =
     (case lookup ext r of Some s \<Rightarrow> Some s | None \<Rightarrow> lookup base r)"
proof (cases "r \<in> set (map fst base)")
  case True
  then obtain s where s: "lookup base r = Some s"
    using lookup_eq_None [of base r] by (cases "lookup base r") auto
  from True have "lookup (filter (\<lambda>(r, s). r \<notin> set (map fst base)) ext) r = None"
    by (simp add: lookup_filter_keys)
  then show ?thesis
    by (simp add: mergeRules_def lookup_append lookup_map_values s split: option.split)
next
  case False
  then have b: "lookup base r = None" by (simp add: lookup_eq_None)
  from False have "lookup (filter (\<lambda>(r, s). r \<notin> set (map fst base)) ext) r = lookup ext r"
    by (simp add: lookup_filter_keys)
  then show ?thesis
    by (simp add: mergeRules_def lookup_append lookup_map_values b split: option.split)
qed

lemma keys_mergeRules:
  "map fst (mergeRules base ext) = map fst base @ filter (\<lambda>r. r \<notin> set (map fst base)) (map fst ext)"
  by (simp add: mergeRules_def filter_map comp_def case_prod_unfold)

lemma distinct_mergeRules:
  "distinct (map fst base) \<Longrightarrow> distinct (map fst ext) \<Longrightarrow> distinct (map fst (mergeRules base ext))"
  by (auto simp add: keys_mergeRules)

lemma ruleSeverity_mergeRules:
  "ruleSeverity (mergeRules base ext) r =
     (case lookup ext r of Some s \<Rightarrow> severityOf s | None \<Rightarrow> ruleSeverity base r)"
  by (simp add: ruleSeverity_def lookup_mergeRules split: option.split)





section \<open>The literals, read once\<close>

text \<open>The key lists and entry lists of the exported objects, evaluated from the literals.\<close>

lemma config_entries:
  "entries configs = [(''es5'', es5Config), (''es6'', es6Config), (''typescript'', typescriptConfig),
     (''jasmine'', jasmineTestsConfig), (''recommended'', recommended)]"
  by (simp add: configs_def)

lemma keys_configs:
  "keys configs = [''es5'', ''es6'', ''typescript'', ''jasmine'', ''recommended'']"
  by (simp add: keys_def config_entries)

lemma environment_entries:
  "entries environments =
    [(''backbone'', JObj [(''globals'', JObj [(''Backbone'', JBool False), (''_'', JBool False)])]),
     (''django'', JObj [(''globals'', JObj [
        (''django'', JBool False), (''gettext'', JBool False), (''gettext_noop'', JBool False),
        (''interpolate'', JBool False), (''ngettext'', JBool False), (''npgettext'', JBool False),
        (''pgettext'', JBool False)])]),
     (''djblets'', JObj [(''Djblets'', JBool False)]),
     (''jasmine-suites'', JObj [(''globals'', JObj [(''suite'', JBool False)])]),
     (''reviewboard'', JObj [(''RB'', JBool False)])]"
  by (simp add: environments_def)

lemma es5_rule_keys:
  "map fst (ruleMap es5Config) =
    [''arrow-spacing'', ''brace-style'', ''comma-dangle'', ''comma-spacing'',
     ''comma-style'', ''curly'', ''default-case'', ''default-case-last'',
     ''eqeqeq'', ''func-call-spacing'', ''indent'', ''linebreak-style'',
     ''lines-around-comment'', ''max-len'', ''no-confusing-arrow'',
     ''no-fallthrough'', ''no-mixed-spaces-and-tabs'', ''no-multi-spaces'',
     ''no-multiple-empty-lines'', ''no-prototype-builtins'', ''no-tabs'',
     ''no-trailing-spaces'', ''no-unused-vars'',
     ''padding-line-between-statements'', ''quotes'', ''semi'', ''sort-keys'',
     ''space-in-parens'', ''spaced-comment'', ''yoda'']"
  by (simp add: ruleMap_def es5Config_def field_def lookup_def)

lemma es6_rule_keys:
  "map fst (ruleMap es6Config) = [''comma-dangle'', ''no-var'', ''prefer-const'', ''quotes'']"
  by (simp add: ruleMap_def es6Config_def field_def lookup_def)

lemma typescript_rule_keys:
  "map fst (ruleMap typescriptConfig) =
    [''@typescript-eslint/no-this-alias'', ''@typescript-eslint/lines-around-comment'',
     ''lines-around-comment'']"
  by (simp add: ruleMap_def typescriptConfig_def field_def lookup_def)



lemma es5_rules_distinct: "distinct (map fst (ruleMap es5Config))"
  unfolding es5_rule_keys by simp

lemma es6_rules_distinct: "distinct (map fst (ruleMap es6Config))"
  unfolding es6_rule_keys by simp



lemma es5_es6_severities:
  "map (ruleSeverity (ruleMap es5Config)) [''comma-dangle'', ''quotes''] = [Some (JStr ''error''), Some (JStr ''error'')]
 \<and> map (ruleSeverity (ruleMap es6Config)) [''comma-dangle'', ''quotes''] = [Some (JStr ''error''), Some (JStr ''error'')]"
  by (simp add: ruleSeverity_def ruleMap_def es5Config_def es6Config_def field_def lookup_def)

lemma settings_valid:
  "list_all (\<lambda>(name, cfg). list_all (\<lambda>(r, s). validSetting s) (ruleMap cfg)) (entries configs)"
  by (simp add: config_entries validSetting_def isSeverity_def ruleMap_def field_def lookup_def
      es5Config_def es6Config_def typescriptConfig_def jasmineTestsConfig_def recommended_def)

lemma environment_globals_readonly:
  "list_all (\<lambda>(name, env). list_all (\<lambda>(g, v). permissionOf v = Some ReadOnly) (declaredGlobals env))
     (entries environments)"
  by (simp add: environment_entries declaredGlobals_def field_def lookup_def)

lemma environment_properties_readonly:
  "list_all (\<lambda>(name, env).
      list_all (\<lambda>(g, v). g = ''globals'' \<or> permissionOf v = Some ReadOnly) (entries env))
     (entries environments)"
  by (simp add: environment_entries)

section \<open>Environments\<close>

text \<open>
  C1. Every environment of the exported registry (backbone, django, djblets,
  jasmine-suites, reviewboard) should keep its global declarations under a
  \<^verbatim>\<open>globals\<close> mapping whose values are permission tags. The records of
  \<^verbatim>\<open>djblets\<close> and \<^verbatim>\<open>reviewboard\<close> do not: they hold \<^verbatim>\<open>Djblets\<close> and \<^verbatim>\<open>RB\<close>
  directly, with no \<^verbatim>\<open>globals\<close> key, while the other three have the shape. The
  theorem evaluates the shape of all five records.
\<close>

theorem environments_without_globals:
  "map (\<lambda>(n, e). (n, hasGlobalsMapping e)) (entries environments) =
     [(''backbone'', True), (''django'', True), (''djblets'', False),
      (''jasmine-suites'', True), (''reviewboard'', False)]
   \<and> field ''djblets'' environments = Some (JObj [(''Djblets'', JBool False)])
   \<and> field ''globals'' (JObj [(''Djblets'', JBool False)]) = None
   \<and> declaredGlobals (JObj [(''Djblets'', JBool False)]) = []
   \<and> field ''reviewboard'' environments = Some (JObj [(''RB'', JBool False)])
   \<and> field ''globals'' (JObj [(''RB'', JBool False)]) = None
   \<and> declaredGlobals (JObj [(''RB'', JBool False)]) = []"
  by (simp add: environment_entries hasGlobalsMapping_def declaredGlobals_def field_def lookup_def)

text \<open>
  C5. The environment \<^verbatim>\<open>backbone\<close> is a record whose \<^verbatim>\<open>globals\<close> mapping is exactly
  \<^verbatim>\<open>Backbone\<close> and \<^verbatim>\<open>_\<close>, both read-only, and no other global.
\<close>

theorem backbone_globals:
  "field ''backbone'' environments =
     Some (JObj [(''globals'', JObj [(''Backbone'', JBool False), (''_'', JBool False)])])
   \<and> globalTags (JObj [(''globals'', JObj [(''Backbone'', JBool False), (''_'', JBool False)])])
       = [(''Backbone'', Some ReadOnly), (''_'', Some ReadOnly)]"
  by (simp add: environment_entries globalTags_def declaredGlobals_def field_def lookup_def)

text \<open>
  C10. Every global that an environment of the registry declares is read-only: this holds
  of the globals under a \<^verbatim>\<open>globals\<close> key and also of the properties that \<^verbatim>\<open>djblets\<close>
  and \<^verbatim>\<open>reviewboard\<close> hold directly. No environment declares a writable global; among
  the configurations the only writable global is \<^verbatim>\<open>$testsScratch\<close>, declared by the
  jasmine configuration.
\<close>

theorem environment_globals_all_readonly:
  "((name, env) \<in> set (entries environments) \<and> (g, v) \<in> set (declaredGlobals env)
      \<longrightarrow> permissionOf v = Some ReadOnly)
   \<and> ((name, env) \<in> set (entries environments) \<and> (g, v) \<in> set (entries env) \<and> g \<noteq> ''globals''
      \<longrightarrow> permissionOf v = Some ReadOnly)
   \<and> concat (map (\<lambda>(name, env). writableGlobals env) (entries environments)) = []
   \<and> map (\<lambda>(name, cfg). (name, writableGlobals cfg)) (entries configs) =
       [(''es5'', []), (''es6'', []), (''typescript'', []),
        (''jasmine'', [''$testsScratch'']), (''recommended'', [])]"
proof -
  have a: "permissionOf v = Some ReadOnly"
    if "(name, env) \<in> set (entries environments)" "(g, v) \<in> set (declaredGlobals env)"
  proof -
    from environment_globals_readonly that(1)
    have "list_all (\<lambda>(g, v). permissionOf v = Some ReadOnly) (declaredGlobals env)"
      by (auto simp add: list_all_iff)
    with that(2) show ?thesis by (auto simp add: list_all_iff)
  qed
  have b: "permissionOf v = Some ReadOnly"
    if "(name, env) \<in> set (entries environments)" "(g, v) \<in> set (entries env)" "g \<noteq> ''globals''"
  proof -
    from environment_properties_readonly that(1)
    have "list_all (\<lambda>(g, v). g = ''globals'' \<or> permissionOf v = Some ReadOnly) (entries env)"
      by (auto simp add: list_all_iff)
    with that(2,3) show ?thesis by (auto simp add: list_all_iff)
  qed
  have c: "concat (map (\<lambda>(name, env). writableGlobals env) (entries environments)) = []"
    by (simp add: environment_entries writableGlobals_def declaredGlobals_def field_def lookup_def)
  have d: "map (\<lambda>(name, cfg). (name, writableGlobals cfg)) (entries configs) =
       [(''es5'', []), (''es6'', []), (''typescript'', []),
        (''jasmine'', [''$testsScratch'']), (''recommended'', [])]"
    by (simp add: config_entries writableGlobals_def declaredGlobals_def field_def lookup_def
        es5Config_def es6Config_def typescriptConfig_def jasmineTestsConfig_def recommended_def)
  from a b c d show ?thesis by blast
qed

theorem environment_globals_all_readonly_witness:
  "(''django'', the (field ''django'' environments)) \<in> set (entries environments)
   \<and> (''gettext'', JBool False) \<in> set (declaredGlobals (the (field ''django'' environments)))
   \<and> (''djblets'', JObj [(''Djblets'', JBool False)]) \<in> set (entries environments)
   \<and> (''Djblets'', JBool False) \<in> set (entries (JObj [(''Djblets'', JBool False)]))
   \<and> ''Djblets'' \<noteq> ''globals''
   \<and> permissionOf (JBool False) = Some ReadOnly"
proof -
  have a: "(''django'', the (field ''django'' environments)) \<in> set (entries environments)"
    by (simp add: environment_entries field_def lookup_def)
  have b: "(''gettext'', JBool False) \<in> set (declaredGlobals (the (field ''django'' environments)))"
    by (simp add: environment_entries declaredGlobals_def field_def lookup_def)
  have c: "(''djblets'', JObj [(''Djblets'', JBool False)]) \<in> set (entries environments)"
    by (simp add: environment_entries)
  have d: "(''Djblets'', JBool False) \<in> set (entries (JObj [(''Djblets'', JBool False)]))"
    by simp
  have e: "''Djblets'' \<noteq> ''globals''" by simp
  from environment_globals_all_readonly
         [of "''django''" "the (field ''django'' environments)" "''gettext''" "JBool False"]
       a b c d e
  show ?thesis by blast
qed

section \<open>Overrides of the recommended configuration\<close>

text \<open>
  C2, as stated: the recommended configuration has an override record for the pattern
  \<^verbatim>\<open>*Tests.*\<close>, so every file matching that pattern is resolved to the jasmine
  configuration. It has no such record: no override names the pattern \<^verbatim>\<open>*Tests.*\<close>,
  and the file \<^verbatim>\<open>viewTests.tsx\<close> matches \<^verbatim>\<open>*Tests.*\<close> but is not resolved to the
  jasmine configuration.
\<close>

theorem tests_pattern_counterexample:
  "''*Tests.*'' \<notin> set (concat (map filesOf (overrides recommended)))
   \<and> globMatch ''*Tests.*'' ''viewTests.tsx''
   \<and> ''plugin:@beanbag/jasmine'' \<notin> set (overrideConfigs globMatch recommended ''viewTests.tsx'')"
  by (simp add: recommended_def overrides_def filesOf_def extendsOf_def overrideConfigs_def
      field_def lookup_def)

text \<open>
  C2, amended: exactly one override record of the recommended configuration extends the
  jasmine configuration, and its patterns are \<^verbatim>\<open>*Tests.es6.js\<close>, \<^verbatim>\<open>*Tests.js\<close> and
  \<^verbatim>\<open>*Tests.ts\<close>; so, whatever the matcher, a file is resolved to the jasmine
  configuration exactly when it matches one of these three patterns.
\<close>

theorem jasmine_override_patterns:
  "map filesOf
     (filter (\<lambda>ov. ''plugin:@beanbag/jasmine'' \<in> set (extendsOf ov)) (overrides recommended))
     = [[''*Tests.es6.js'', ''*Tests.js'', ''*Tests.ts'']]
   \<and> (''plugin:@beanbag/jasmine'' \<in> set (overrideConfigs matches recommended f)
        \<longleftrightarrow> matches ''*Tests.es6.js'' f \<or> matches ''*Tests.js'' f \<or> matches ''*Tests.ts'' f)"
  by (simp add: recommended_def overrides_def filesOf_def extendsOf_def overrideConfigs_def
      field_def lookup_def)

theorem jasmine_override_patterns_witness:
  "globMatch ''*Tests.js'' ''viewTests.js''
   \<and> ''plugin:@beanbag/jasmine'' \<in> set (overrideConfigs globMatch recommended ''viewTests.js'')"
proof -
  have m: "globMatch ''*Tests.js'' ''viewTests.js''" by simp
  from jasmine_override_patterns [of globMatch "''viewTests.js''"] m show ?thesis by blast
qed

section \<open>Rule maps\<close>

text \<open>
  C3. Merging the es6 rule map over the es5 rule map gives every rule identifier one
  entry only. The identifiers that both maps declare are \<^verbatim>\<open>comma-dangle\<close> and
  \<^verbatim>\<open>quotes\<close>, and on them the two severities agree. The merged map has the es6
  setting for every identifier that es6 declares and the es5 setting for every other
  one.
\<close>

theorem es6_overrides_only_redeclared:
  "distinct (map fst (mergeRules (ruleMap es5Config) (ruleMap es6Config)))
   \<and> redeclared (ruleMap es5Config) (ruleMap es6Config) = [''comma-dangle'', ''quotes'']
   \<and> (r \<in> set (redeclared (ruleMap es5Config) (ruleMap es6Config)) \<longrightarrow>
        ruleSeverity (ruleMap es5Config) r = ruleSeverity (ruleMap es6Config) r)
   \<and> (r \<in> set (map fst (ruleMap es6Config)) \<longrightarrow>
        lookup (mergeRules (ruleMap es5Config) (ruleMap es6Config)) r = lookup (ruleMap es6Config) r)
   \<and> (r \<notin> set (map fst (ruleMap es6Config)) \<longrightarrow>
        lookup (mergeRules (ruleMap es5Config) (ruleMap es6Config)) r = lookup (ruleMap es5Config) r)"
proof -
  have d: "distinct (map fst (mergeRules (ruleMap es5Config) (ruleMap es6Config)))"
    by (rule distinct_mergeRules [OF es5_rules_distinct es6_rules_distinct])
  have re: "redeclared (ruleMap es5Config) (ruleMap es6Config) = [''comma-dangle'', ''quotes'']"
    unfolding redeclared_def es5_rule_keys es6_rule_keys by simp
  have sev: "r \<in> set (redeclared (ruleMap es5Config) (ruleMap es6Config)) \<longrightarrow>
        ruleSeverity (ruleMap es5Config) r = ruleSeverity (ruleMap es6Config) r"
    unfolding re using es5_es6_severities by auto
  have inn: "r \<in> set (map fst (ruleMap es6Config)) \<longrightarrow>
        lookup (mergeRules (ruleMap es5Config) (ruleMap es6Config)) r = lookup (ruleMap es6Config) r"
    using lookup_eq_None [of "ruleMap es6Config" r]
    by (auto simp add: lookup_mergeRules split: option.split)
  have out: "r \<notin> set (map fst (ruleMap es6Config)) \<longrightarrow>
        lookup (mergeRules (ruleMap es5Config) (ruleMap es6Config)) r = lookup (ruleMap es5Config) r"
    using lookup_eq_None [of "ruleMap es6Config" r]
    by (auto simp add: lookup_mergeRules split: option.split)
  from d re sev inn out show ?thesis by blast
qed

theorem es6_overrides_only_redeclared_witness:
  "''quotes'' \<in> set (redeclared (ruleMap es5Config) (ruleMap es6Config))
   \<and> ''quotes'' \<in> set (map fst (ruleMap es6Config))
   \<and> ''semi'' \<notin> set (map fst (ruleMap es6Config))
   \<and> ruleSeverity (ruleMap es5Config) ''quotes'' = ruleSeverity (ruleMap es6Config) ''quotes''
   \<and> lookup (mergeRules (ruleMap es5Config) (ruleMap es6Config)) ''quotes''
       = lookup (ruleMap es6Config) ''quotes''
   \<and> lookup (mergeRules (ruleMap es5Config) (ruleMap es6Config)) ''semi''
       = lookup (ruleMap es5Config) ''semi''"
proof -
  have a: "''quotes'' \<in> set (map fst (ruleMap es6Config))"
    unfolding es6_rule_keys by simp
  have b: "''semi'' \<notin> set (map fst (ruleMap es6Config))"
    unfolding es6_rule_keys by simp
  have c: "''quotes'' \<in> set (redeclared (ruleMap es5Config) (ruleMap es6Config))"
    unfolding redeclared_def es5_rule_keys es6_rule_keys by simp
  from es6_overrides_only_redeclared [of "''quotes''"]
       es6_overrides_only_redeclared [of "''semi''"] a b c
  show ?thesis by blast
qed

text \<open>
  C4. In every configuration of the registry, the severity of every rule setting (the
  bare value, or the first element of the array) is \<^verbatim>\<open>off\<close>, \<^verbatim>\<open>warn\<close> or
  \<^verbatim>\<open>error\<close>.
\<close>

theorem severity_off_warn_error:
  assumes "(name, cfg) \<in> set (entries configs)" and "(r, s) \<in> set (ruleMap cfg)"
  shows "\<exists>v. severityOf s = Some v \<and> (v = JStr ''off'' \<or> v = JStr ''warn'' \<or> v = JStr ''error'')"
proof -
  from settings_valid assms(1) have "list_all (\<lambda>(r, s). validSetting s) (ruleMap cfg)"
    by (auto simp add: list_all_iff)
  with assms(2) have "validSetting s"
    by (auto simp add: list_all_iff)
  then show ?thesis
    by (cases "severityOf s") (simp_all add: validSetting_def isSeverity_def)
qed

theorem severity_off_warn_error_witness:
  "(''jasmine'', jasmineTestsConfig) \<in> set (entries configs)
   \<and> (''jasmine/no-suite-dupes'', JArr [JStr ''warn'', JStr ''branch'']) \<in> set (ruleMap jasmineTestsConfig)
   \<and> (\<exists>v. severityOf (JArr [JStr ''warn'', JStr ''branch'']) = Some v
          \<and> (v = JStr ''off'' \<or> v = JStr ''warn'' \<or> v = JStr ''error''))"
proof -
  have a: "(''jasmine'', jasmineTestsConfig) \<in> set (entries configs)"
    by (simp add: config_entries)
  have b: "(''jasmine/no-suite-dupes'', JArr [JStr ''warn'', JStr ''branch''])
           \<in> set (ruleMap jasmineTestsConfig)"
    by (simp add: ruleMap_def jasmineTestsConfig_def field_def lookup_def)
  from severity_off_warn_error [OF a b] a b show ?thesis by blast
qed




text \<open>
  C8. The three options that recognise a fall-through marker (\<^verbatim>\<open>ignorePattern\<close> of
  \<^verbatim>\<open>lines-around-comment\<close> and \<^verbatim>\<open>commentPattern\<close> of \<^verbatim>\<open>no-fallthrough\<close> in es5,
  \<^verbatim>\<open>ignorePattern\<close> of \<^verbatim>\<open>@typescript-eslint/lines-around-comment\<close> in typescript)
  hold the same string, the pattern \<^verbatim>\<open>[Ff]alls?\s?through\<close> with one backslash.
\<close>

theorem fallthrough_patterns_equal:
  "ruleOption es5Config ''lines-around-comment'' ''ignorePattern'' = Some (JStr noFallThroughPattern)
   \<and> ruleOption es5Config ''no-fallthrough'' ''commentPattern'' = Some (JStr noFallThroughPattern)
   \<and> ruleOption typescriptConfig ''@typescript-eslint/lines-around-comment'' ''ignorePattern''
       = Some (JStr noFallThroughPattern)
   \<and> noFallThroughPattern = ''[Ff]alls?'' @ [CHR 0x5C] @ ''s?through''"
  by (simp add: ruleOption_def ruleMap_def field_def lookup_def es5Config_def
      typescriptConfig_def noFallThroughPattern_def)

text \<open>
  C9. The typescript rule map sets \<^verbatim>\<open>@typescript-eslint/lines-around-comment\<close> to
  \<^verbatim>\<open>warn\<close> and the base rule \<^verbatim>\<open>lines-around-comment\<close> to \<^verbatim>\<open>off\<close>; es5 alone has
  the base rule at \<^verbatim>\<open>warn\<close>. After merging typescript over es5 the TypeScript rule
  is active and the base rule is not, so at most one of the two is active.
\<close>

theorem typescript_lines_around_comment:
  "ruleSeverity (ruleMap typescriptConfig) ''@typescript-eslint/lines-around-comment''
     = Some (JStr ''warn'')
   \<and> ruleSeverity (ruleMap typescriptConfig) ''lines-around-comment'' = Some (JStr ''off'')
   \<and> ruleSeverity (ruleMap es5Config) ''lines-around-comment'' = Some (JStr ''warn'')
   \<and> ruleSeverity (mergeRules (ruleMap es5Config) (ruleMap typescriptConfig))
        ''@typescript-eslint/lines-around-comment'' = Some (JStr ''warn'')
   \<and> ruleSeverity (mergeRules (ruleMap es5Config) (ruleMap typescriptConfig))
        ''lines-around-comment'' = Some (JStr ''off'')
   \<and> activeRule (mergeRules (ruleMap es5Config) (ruleMap typescriptConfig))
        ''@typescript-eslint/lines-around-comment''
   \<and> \<not> activeRule (mergeRules (ruleMap es5Config) (ruleMap typescriptConfig))
        ''lines-around-comment''
   \<and> \<not> (activeRule (mergeRules (ruleMap es5Config) (ruleMap typescriptConfig))
          ''lines-around-comment''
        \<and> activeRule (mergeRules (ruleMap es5Config) (ruleMap typescriptConfig))
          ''@typescript-eslint/lines-around-comment'')"
proof -
  have ts: "lookup (ruleMap typescriptConfig) ''lines-around-comment'' = Some (JStr ''off'')"
    by (simp add: ruleMap_def field_def lookup_def typescriptConfig_def)
  have tsx: "ruleSeverity (ruleMap typescriptConfig) ''@typescript-eslint/lines-around-comment''
     = Some (JStr ''warn'')"
    by (simp add: ruleSeverity_def ruleMap_def field_def lookup_def typescriptConfig_def)
  have e5: "ruleSeverity (ruleMap es5Config) ''lines-around-comment'' = Some (JStr ''warn'')"
    by (simp add: ruleSeverity_def ruleMap_def field_def lookup_def es5Config_def)
  have tsl: "lookup (ruleMap typescriptConfig) ''@typescript-eslint/lines-around-comment'' \<noteq> None"
    by (simp add: lookup_eq_None typescript_rule_keys)
  then obtain s where s: "lookup (ruleMap typescriptConfig)
      ''@typescript-eslint/lines-around-comment'' = Some s"
    by blast
  with tsx have "severityOf s = Some (JStr ''warn'')"
    by (simp add: ruleSeverity_def)
  with s have mx: "ruleSeverity (mergeRules (ruleMap es5Config) (ruleMap typescriptConfig))
        ''@typescript-eslint/lines-around-comment'' = Some (JStr ''warn'')"
    by (simp add: ruleSeverity_mergeRules)
  have mb: "ruleSeverity (mergeRules (ruleMap es5Config) (ruleMap typescriptConfig))
        ''lines-around-comment'' = Some (JStr ''off'')"
    by (simp add: ruleSeverity_mergeRules ts)
  from ts tsx e5 mx mb show ?thesis
    by (simp add: activeRule_def ruleSeverity_def)
qed

section \<open>Looking up a configuration\<close>

text \<open>
  C6. \<^verbatim>\<open>getConfiguration\<close> fails with \<open>NotFoundError\<close> exactly for the names that are
  not in \<^verbatim>\<open>listConfigurations\<close>, which are es5, es6, typescript, jasmine and
  recommended. The name \<^verbatim>\<open>unknown-xyz\<close> fails, and every listed name returns the
  configuration registered under it.
\<close>

theorem getConfiguration_NotFound_iff:
  "(getConfiguration name = Inl NotFoundError \<longleftrightarrow> name \<notin> listConfigurations)
   \<and> listConfigurations = {''es5'', ''es6'', ''typescript'', ''jasmine'', ''recommended''}
   \<and> getConfiguration ''unknown-xyz'' = Inl NotFoundError
   \<and> (name \<in> listConfigurations \<longrightarrow>
        (\<exists>cfg. getConfiguration name = Inr cfg \<and> (name, cfg) \<in> set (entries configs)))"
proof -
  have none: "field name configs = None \<longleftrightarrow> name \<notin> listConfigurations"
    by (simp add: field_def lookup_eq_None listConfigurations_def keys_def)
  have iff: "getConfiguration name = Inl NotFoundError \<longleftrightarrow> name \<notin> listConfigurations"
    using none by (cases "field name configs") (auto simp add: getConfiguration_def)
  have names: "listConfigurations = {''es5'', ''es6'', ''typescript'', ''jasmine'', ''recommended''}"
    by (simp add: listConfigurations_def keys_configs)
  have unknown: "getConfiguration ''unknown-xyz'' = Inl NotFoundError"
    by (simp add: getConfiguration_def field_def lookup_def config_entries)
  have found: "\<exists>cfg. getConfiguration name = Inr cfg \<and> (name, cfg) \<in> set (entries configs)"
    if "name \<in> listConfigurations"
  proof -
    from that none obtain cfg where c: "field name configs = Some cfg"
      by (cases "field name configs") auto
    then have "map_of (rev (entries configs)) name = Some cfg"
      by (simp add: field_def lookup_def)
    then have "(name, cfg) \<in> set (entries configs)"
      by (auto dest: map_of_SomeD)
    with c show ?thesis by (simp add: getConfiguration_def)
  qed
  from iff names unknown found show ?thesis by blast
qed

theorem getConfiguration_NotFound_iff_witness:
  "''typescript'' \<in> listConfigurations
   \<and> getConfiguration ''typescript'' = Inr typescriptConfig
   \<and> getConfiguration ''typescript'' \<noteq> Inl NotFoundError"
proof -
  have a: "''typescript'' \<in> listConfigurations"
    by (simp add: listConfigurations_def keys_configs)
  have b: "getConfiguration ''typescript'' = Inr typescriptConfig"
    by (simp add: getConfiguration_def field_def lookup_def config_entries)
  from getConfiguration_NotFound_iff [of "''typescript''"] a b show ?thesis by simp
qed

end
